theory Spec2Isabelle
  imports Complex_Main "HOL-Library.AList"
begin

section \<open>Conventions of the embedding\<close>

text \<open>
  The game core of \<^verbatim>\<open>FootGame.py\<close> is embedded function by function.
  Python floats are modelled as \<^typ>\<open>real\<close>: comparisons, \<^verbatim>\<open>max\<close> and
  \<^verbatim>\<open>min\<close> are exact on floats, and the concrete inputs evaluated below either
  use values whose float arithmetic is exact or decide every comparison by a margin far
  above a rounding error, so the model and the interpreter agree there.
  Python ints are \<^typ>\<open>int\<close>. A method takes \<^verbatim>\<open>self\<close> first and returns the
  object it mutated; \<^verbatim>\<open>time.time()\<close> and \<^verbatim>\<open>random.random()\<close> are
  explicit last arguments (\<open>now\<close>, \<open>rnd\<close>). A \<^verbatim>\<open>dict\<close> with string keys is an
  association list in insertion order, read with \<^const>\<open>map_of\<close> and written with
  \<^const>\<open>AList.update\<close>, which overwrites in place and appends a new key, as
  Python does. An exception is a value of type \<open>error\<close>. Rendering calls change no
  game state and are left out.
\<close>

datatype error = KeyError | ValueError | IndexError | OverflowError

subsection \<open>Module constants and enumerations\<close>

definition SCREEN_W :: int where
  "SCREEN_W = 800"

definition SCREEN_H :: int where
  "SCREEN_H = 600"

definition AI_MAX_FLOW :: int where
  "AI_MAX_FLOW = 100"

datatype SkillType = FLOW | STAMINA | ULTIMATE

datatype PlayerType = STRIKER | MIDFIELDER | DEFENDER | GOALKEEPER

datatype ControlType = KEYBOARD | AI

datatype GameState = MENU | PLAYING | PAUSED | GOAL | GAME_OVER

text \<open>The \<^verbatim>\<open>.value\<close> of an enum member, and the lookup by value \<^verbatim>\<open>PlayerType(s)\<close>,
  which raises \<^verbatim>\<open>ValueError\<close> when no member has that value.\<close>

fun PlayerType_value :: "PlayerType \<Rightarrow> string" where
  "PlayerType_value STRIKER = ''striker''"
| "PlayerType_value MIDFIELDER = ''midfielder''"
| "PlayerType_value DEFENDER = ''defender''"
| "PlayerType_value GOALKEEPER = ''goalkeeper''"

definition PlayerType_of :: "string \<Rightarrow> error + PlayerType" where
  "PlayerType_of s =
    (if s = ''striker'' then Inr STRIKER
     else if s = ''midfielder'' then Inr MIDFIELDER
     else if s = ''defender'' then Inr DEFENDER
     else if s = ''goalkeeper'' then Inr GOALKEEPER
     else Inl ValueError)"

fun ControlType_value :: "ControlType \<Rightarrow> string" where
  "ControlType_value KEYBOARD = ''keyboard''"
| "ControlType_value AI = ''ai''"

definition ControlType_of :: "string \<Rightarrow> error + ControlType" where
  "ControlType_of s =
    (if s = ''keyboard'' then Inr KEYBOARD
     else if s = ''ai'' then Inr AI
     else Inl ValueError)"

subsection \<open>Numbers\<close>

text \<open>
  A number whose Python type is not fixed by the code: a coordinate handed to the
  constructor of a player, which is a float or an int (the game creates players at int
  coordinates, a snapshot holds the floats \<^verbatim>\<open>to_dict\<close> wrote or whatever JSON
  numbers its file held).
\<close>

datatype number = PyFloat real | PyInt int

text \<open>
  \<^verbatim>\<open>float(x)\<close> on a number: a float is returned as it is; an int is converted,
  and raises \<^verbatim>\<open>OverflowError\<close> when it would round to a magnitude of
  \<open>2 ^ 1024\<close> or more, which is from \<open>2 ^ 1024 - 2 ^ 970\<close> on.
\<close>

definition py_float :: "number \<Rightarrow> error + real" where
  "py_float x =
    (case x of
       PyFloat r \<Rightarrow> Inr r
     | PyInt n \<Rightarrow> if \<bar>n\<bar> < 2 ^ 1024 - 2 ^ 970 then Inr (real_of_int n) else Inl OverflowError)"

subsection \<open>Skill\<close>

text \<open>The values of the \<^verbatim>\<open>effect\<close> dictionary (\<^verbatim>\<open>Union[int, float, bool]\<close>)
  and their truth value in a condition.\<close>

datatype effect_value = EInt int | EFloat real | EBool bool

fun truthy :: "effect_value \<Rightarrow> bool" where
  "truthy (EInt n) = (n \<noteq> 0)"
| "truthy (EFloat r) = (r \<noteq> 0)"
| "truthy (EBool b) = b"

record Skill =
  name :: string
  type :: SkillType
  flow_cost :: int
  stamina_cost :: int
  cooldown :: real
  effect :: "(string \<times> effect_value) list"

subsection \<open>Ball\<close>

text \<open>
  \<^verbatim>\<open>class Ball\<close>: \<^verbatim>\<open>pos\<close> and \<^verbatim>\<open>vel\<close> are the two-element lists
  \<^verbatim>\<open>[x, y]\<close>, written as pairs.
\<close>

record Ball =
  pos :: "real \<times> real"
  vel :: "real \<times> real"
  radius :: int
  friction :: real

text \<open>\<^verbatim>\<open>Ball.__init__(self, x, y)\<close>.\<close>

definition Ball_init :: "real \<Rightarrow> real \<Rightarrow> Ball" where
  "Ball_init x y = \<lparr>Ball.pos = (x, y), vel = (0, 0), radius = 8, friction = 95 / 100\<rparr>"

text \<open>
  \<^verbatim>\<open>Ball.update(self, dt, bounds)\<close>: the result is the returned team
  (\<open>None\<close> for Python's \<^verbatim>\<open>None\<close>) and the ball after the call. The two goal
  branches return before the vertical clamp of the last assignment.
\<close>

definition Ball_update :: "Ball \<Rightarrow> real \<Rightarrow> int \<times> int \<Rightarrow> string option \<times> Ball" where
  "Ball_update b dt bounds =
    (let px = fst (Ball.pos b) + fst (vel b) * dt * 60;
         py = snd (Ball.pos b) + snd (vel b) * dt * 60;
         vx = fst (vel b) * friction b;
         vy = snd (vel b) * friction b;
         b1 = b\<lparr>Ball.pos := (px, py), vel := (vx, vy)\<rparr>
     in if px < 0 then (Some ''B'', b1)
        else if px > real_of_int (fst bounds) then (Some ''A'', b1)
        else (None,
              b1\<lparr>Ball.pos :=
                   (px, max (real_of_int (radius b1))
                            (min (real_of_int (snd bounds - radius b1)) py))\<rparr>))"

subsection \<open>Player\<close>

text \<open>
  \<^verbatim>\<open>class Player\<close>. The fields \<^verbatim>\<open>size\<close> and \<^verbatim>\<open>exp\<close> are named
  \<open>size_p\<close> and \<open>exp_p\<close>. The resource pools and their maxima start as ints and
  become floats once flow regenerates; they are reals throughout.
\<close>

record Player =
  name :: string
  team :: string
  ptype :: PlayerType
  ai_lvl :: int
  control :: ControlType
  pos :: "real \<times> real"
  size_p :: int
  level :: int
  exp_p :: int
  score :: int
  max_stamina :: real
  max_flow :: real
  stamina :: real
  flow :: real
  skill_cd :: "(string \<times> real) list"
  awakened_until :: real

text \<open>
  The attributes \<^verbatim>\<open>Player.__init__\<close> assigns, given the two coordinates
  \<^verbatim>\<open>float(pos[0])\<close> and \<^verbatim>\<open>float(pos[1])\<close> already converted;
  \<^verbatim>\<open>stamina\<close> starts at \<^verbatim>\<open>max_stamina\<close>, which is 100.
\<close>

definition Player_attrs ::
  "string \<Rightarrow> string \<Rightarrow> PlayerType \<Rightarrow> int \<Rightarrow> real \<times> real \<Rightarrow> ControlType \<Rightarrow> Player" where
  "Player_attrs nm tm pt ai xy ctl =
    \<lparr>Player.name = nm, team = tm, ptype = pt, ai_lvl = ai, control = ctl,
     pos = (fst xy, snd xy), size_p = 24, level = 1, exp_p = 0, score = 0,
     max_stamina = 100, max_flow = real_of_int AI_MAX_FLOW, stamina = 100, flow = 0,
     skill_cd = [], awakened_until = 0\<rparr>"

text \<open>
  \<^verbatim>\<open>Player.__init__(self, name, team, ptype, ai_lvl, pos, control)\<close>. The tuple
  \<^verbatim>\<open>pos\<close> is a list of numbers of any length. The only statement that can raise
  is \<^verbatim>\<open>self.pos = [float(pos[0]), float(pos[1])]\<close>, evaluated left to right:
  \<^verbatim>\<open>pos[0]\<close> raises \<^verbatim>\<open>IndexError\<close> on an empty tuple, then
  \<^verbatim>\<open>float\<close> may raise, then the same for \<^verbatim>\<open>pos[1]\<close>.
\<close>

definition Player_init ::
  "string \<Rightarrow> string \<Rightarrow> PlayerType \<Rightarrow> int \<Rightarrow> number list \<Rightarrow> ControlType \<Rightarrow> error + Player" where
  "Player_init nm tm pt ai xy ctl =
    (case xy of
       [] \<Rightarrow> Inl IndexError
     | x # xs \<Rightarrow>
    (case py_float x of
       Inl e \<Rightarrow> Inl e
     | Inr fx \<Rightarrow>
    (case xs of
       [] \<Rightarrow> Inl IndexError
     | y # rest \<Rightarrow>
    (case py_float y of
       Inl e \<Rightarrow> Inl e
     | Inr fy \<Rightarrow> Inr (Player_attrs nm tm pt ai (fx, fy) ctl)))))"

text \<open>\<^verbatim>\<open>Player.awaken(self)\<close>.\<close>

definition awaken :: "Player \<Rightarrow> real \<Rightarrow> Player" where
  "awaken p now = p\<lparr>awakened_until := now + 10, flow := 0, stamina := max_stamina p\<rparr>"

text \<open>\<^verbatim>\<open>math.hypot\<close>.\<close>

definition hypot :: "real \<Rightarrow> real \<Rightarrow> real" where
  "hypot x y = sqrt (x * x + y * y)"

text \<open>\<^verbatim>\<open>Player._move(self, target)\<close>; \<^verbatim>\<open>hypot(dx, dy) or 1.0\<close> replaces a zero
  distance by 1.\<close>

definition move :: "Player \<Rightarrow> real \<times> real \<Rightarrow> real \<Rightarrow> Player" where
  "move p target now =
    (let dx = fst target - fst (Player.pos p);
         dy = snd target - snd (Player.pos p);
         m = (if hypot dx dy = 0 then 1 else hypot dx dy);
         spd = 2 + real_of_int (ai_lvl p) * (3 / 10)
                 + (if now < awakened_until p then 2 else 0)
     in p\<lparr>pos := (fst (Player.pos p) + dx / m * spd, snd (Player.pos p) + dy / m * spd)\<rparr>)"

text \<open>\<^verbatim>\<open>Player._ai(self, dt, ball, players)\<close>: it moves the player or kicks the ball,
  so it returns both. \<open>rnd\<close> is the value \<^verbatim>\<open>random.random()\<close> returns in the last
  branch.\<close>

definition ai :: "Player \<Rightarrow> real \<Rightarrow> Ball \<Rightarrow> Player list \<Rightarrow> real \<Rightarrow> real \<Rightarrow> Player \<times> Ball" where
  "ai p dt ball players now rnd =
    (let d = hypot (fst (Player.pos p) - fst (Ball.pos ball))
                   (snd (Player.pos p) - snd (Ball.pos ball));
         centre = (real_of_int SCREEN_W / 2, real_of_int SCREEN_H / 2)
     in if ptype p = STRIKER \<and> d < 50
        then (p, ball\<lparr>vel := ((if team p = ''A'' then 1 else - 1) * 10, 0)\<rparr>)
        else if ptype p = DEFENDER
        then (if (team p = ''A'' \<and> fst (Ball.pos ball) < real_of_int SCREEN_W / 2)
                 \<or> (team p = ''B'' \<and> fst (Ball.pos ball) > real_of_int SCREEN_W / 2)
              then (move p (Ball.pos ball) now, ball)
              else (move p centre now, ball))
        else if d < 30
        then (p, ball\<lparr>vel := ((fst (Player.pos p) - fst (Ball.pos ball)) * (12 / 100),
                               (snd (Player.pos p) - snd (Ball.pos ball)) * (12 / 100))\<rparr>)
        else (move p (if rnd < 2 / 10 then centre else Ball.pos ball) now, ball))"

text \<open>
  \<^verbatim>\<open>Player.update(self, dt, ball, players)\<close>. The loop visits every key of
  \<^verbatim>\<open>skill_cd\<close> once and overwrites its value with
  \<^verbatim>\<open>max(0.0, skill_cd[k] - dt)\<close>: a map over the entries.
\<close>

definition Player_update ::
  "Player \<Rightarrow> real \<Rightarrow> Ball \<Rightarrow> Player list \<Rightarrow> real \<Rightarrow> real \<Rightarrow> Player \<times> Ball" where
  "Player_update p dt ball players now rnd =
    (let p1 = p\<lparr>skill_cd := map (\<lambda>(k, c). (k, max 0 (c - dt))) (skill_cd p)\<rparr>;
         p2 = p1\<lparr>flow := min (max_flow p1) (flow p1 + dt * 5)\<rparr>
     in if control p2 = AI then ai p2 dt ball players now rnd else (p2, ball))"

subsection \<open>Snapshots of a player\<close>

text \<open>
  The dictionary \<^verbatim>\<open>Player.to_dict\<close> builds and \<^verbatim>\<open>Player.from_dict\<close> reads:
  field \<open>d_name\<close> is the key \<^verbatim>\<open>"name"\<close>, and so on; \<open>None\<close> is an absent key
  and \<open>Some v\<close> a key holding a value of the type \<^verbatim>\<open>to_dict\<close> writes there.
  The position is a list of numbers of any length, each a float or an int.
\<close>

record PlayerDict =
  d_name :: "string option"
  d_team :: "string option"
  d_ptype :: "string option"
  d_ai_lvl :: "int option"
  d_pos :: "number list option"
  d_control :: "string option"
  d_level :: "int option"
  d_exp :: "int option"
  d_score :: "int option"
  d_max_stamina :: "real option"
  d_max_flow :: "real option"
  d_stamina :: "real option"
  d_flow :: "real option"
  d_skill_cd :: "(string \<times> real) list option"
  d_awakened_until :: "real option"

text \<open>\<^verbatim>\<open>d.get(key, default)\<close>.\<close>

definition get_or :: "'a option \<Rightarrow> 'a \<Rightarrow> 'a" where
  "get_or v dflt = (case v of None \<Rightarrow> dflt | Some x \<Rightarrow> x)"

text \<open>\<^verbatim>\<open>Player.to_dict(self)\<close>.\<close>

definition to_dict :: "Player \<Rightarrow> PlayerDict" where
  "to_dict p =
    \<lparr>d_name = Some (Player.name p),
     d_team = Some (team p),
     d_ptype = Some (PlayerType_value (ptype p)),
     d_ai_lvl = Some (ai_lvl p),
     d_pos = Some [PyFloat (fst (Player.pos p)), PyFloat (snd (Player.pos p))],
     d_control = Some (ControlType_value (control p)),
     d_level = Some (level p),
     d_exp = Some (exp_p p),
     d_score = Some (score p),
     d_max_stamina = Some (max_stamina p),
     d_max_flow = Some (max_flow p),
     d_stamina = Some (stamina p),
     d_flow = Some (flow p),
     d_skill_cd = Some (skill_cd p),
     d_awakened_until = Some (awakened_until p)\<rparr>"

text \<open>
  \<^verbatim>\<open>Player.from_dict(d)\<close>. The arguments of the constructor call are evaluated
  in order: \<^verbatim>\<open>d["name"]\<close> and \<^verbatim>\<open>d["team"]\<close> raise \<^verbatim>\<open>KeyError\<close> on an
  absent key and the two enum lookups raise \<^verbatim>\<open>ValueError\<close>; then the
  constructor runs and raises what its conversion of the position raises. The default
  position is the tuple \<^verbatim>\<open>(0, 0)\<close> of ints.
\<close>

definition from_dict :: "PlayerDict \<Rightarrow> error + Player" where
  "from_dict d =
    (case d_name d of
       None \<Rightarrow> Inl KeyError
     | Some nm \<Rightarrow>
    (case d_team d of
       None \<Rightarrow> Inl KeyError
     | Some tm \<Rightarrow>
    (case PlayerType_of (get_or (d_ptype d) (PlayerType_value STRIKER)) of
       Inl e \<Rightarrow> Inl e
     | Inr pt \<Rightarrow>
    (case ControlType_of (get_or (d_control d) (ControlType_value AI)) of
       Inl e \<Rightarrow> Inl e
     | Inr ctl \<Rightarrow>
    (case Player_init nm tm pt (get_or (d_ai_lvl d) 1) (get_or (d_pos d) [PyInt 0, PyInt 0]) ctl of
       Inl e \<Rightarrow> Inl e
     | Inr p \<Rightarrow>
         let p = p\<lparr>level := get_or (d_level d) 1\<rparr>;
             p = p\<lparr>exp_p := get_or (d_exp d) 0\<rparr>;
             p = p\<lparr>score := get_or (d_score d) 0\<rparr>;
             p = p\<lparr>max_stamina := get_or (d_max_stamina d) 100\<rparr>;
             p = p\<lparr>max_flow := get_or (d_max_flow d) (real_of_int AI_MAX_FLOW)\<rparr>;
             p = p\<lparr>stamina := get_or (d_stamina d) (max_stamina p)\<rparr>;
             p = p\<lparr>flow := get_or (d_flow d) 0\<rparr>;
             p = p\<lparr>skill_cd := get_or (d_skill_cd d) []\<rparr>;
             p = p\<lparr>awakened_until := get_or (d_awakened_until d) 0\<rparr>
         in Inr p)))))"

subsection \<open>Skill system\<close>

record SkillSystem =
  skills :: "(string \<times> Skill) list"

text \<open>\<^verbatim>\<open>SkillSystem.register(self, skill)\<close>.\<close>

definition register :: "SkillSystem \<Rightarrow> Skill \<Rightarrow> SkillSystem" where
  "register ss skill = ss\<lparr>skills := AList.update (Skill.name skill) skill (skills ss)\<rparr>"

text \<open>\<^verbatim>\<open>SkillSystem.__init__(self)\<close>: the four built-in skills.\<close>

definition SkillSystem_init :: SkillSystem where
  "SkillSystem_init =
    register (register (register (register \<lparr>skills = []\<rparr>
      \<lparr>Skill.name = ''Power Shot'', type = FLOW, flow_cost = 30, stamina_cost = 10,
        cooldown = 5, effect = [(''mult'', EInt 2)]\<rparr>)
      \<lparr>Skill.name = ''Iron Tackle'', type = STAMINA, flow_cost = 0, stamina_cost = 40,
        cooldown = 8, effect = [(''boost'', EBool True)]\<rparr>)
      \<lparr>Skill.name = ''Field Vision'', type = FLOW, flow_cost = 40, stamina_cost = 20,
        cooldown = 10, effect = [(''buff'', EBool True)]\<rparr>)
      \<lparr>Skill.name = ''Awaken'', type = ULTIMATE, flow_cost = AI_MAX_FLOW, stamina_cost = 0,
        cooldown = 0, effect = [(''awaken'', EBool True)]\<rparr>"

text \<open>\<^verbatim>\<open>SkillSystem.can_use(self, p, name)\<close>. A \<^verbatim>\<open>Skill\<close> object is always
  true in a condition, so \<^verbatim>\<open>not sk\<close> holds exactly for an unregistered name.\<close>

definition can_use :: "SkillSystem \<Rightarrow> Player \<Rightarrow> string \<Rightarrow> bool" where
  "can_use ss p nm =
    (case map_of (skills ss) nm of
       None \<Rightarrow> False
     | Some sk \<Rightarrow>
         if flow p < real_of_int (flow_cost sk) then False
         else if stamina p < real_of_int (stamina_cost sk) then False
         else if get_or (map_of (skill_cd p) nm) 0 > 0 then False
         else True)"

text \<open>The condition \<^verbatim>\<open>sk.effect.get("awaken")\<close>.\<close>

definition effect_awaken :: "Skill \<Rightarrow> bool" where
  "effect_awaken sk = (case map_of (effect sk) ''awaken'' of None \<Rightarrow> False | Some v \<Rightarrow> truthy v)"

text \<open>\<^verbatim>\<open>SkillSystem.use(self, p, name)\<close>: the returned flag and the player after
  the call. \<^verbatim>\<open>self.skills[name]\<close> raises \<^verbatim>\<open>KeyError\<close> on an unregistered name.\<close>

definition use :: "SkillSystem \<Rightarrow> Player \<Rightarrow> string \<Rightarrow> real \<Rightarrow> error + (bool \<times> Player)" where
  "use ss p nm now =
    (if \<not> can_use ss p nm then Inr (False, p)
     else case map_of (skills ss) nm of
       None \<Rightarrow> Inl KeyError
     | Some sk \<Rightarrow>
         let p1 = p\<lparr>flow := flow p - real_of_int (flow_cost sk)\<rparr>;
             p2 = p1\<lparr>stamina := stamina p1 - real_of_int (stamina_cost sk)\<rparr>;
             p3 = p2\<lparr>skill_cd := AList.update nm (cooldown sk) (skill_cd p2)\<rparr>
         in if effect_awaken sk then Inr (True, awaken p3 now) else Inr (True, p3))"

subsection \<open>Game engine\<close>

text \<open>
  The fields of \<^verbatim>\<open>GameEngine\<close> that carry game state; the screen, the clock and
  the menu widget are left out.
\<close>

record GameEngine =
  state :: GameState
  skill_sys :: SkillSystem
  ball :: Ball
  teams :: "(string \<times> int) list"
  players :: "Player list"
  start :: real
  goal_time :: real

text \<open>\<^verbatim>\<open>GameEngine._goal_loop(self)\<close>, called by \<^verbatim>\<open>run\<close> once per frame while the
  state is \<^verbatim>\<open>GOAL\<close>.\<close>

definition goal_loop :: "GameEngine \<Rightarrow> real \<Rightarrow> GameEngine" where
  "goal_loop e now =
    (if now - goal_time e > 2
     then e\<lparr>ball := Ball_init 400 300, state := PLAYING\<rparr>
     else e)"

text \<open>
  One iteration of the loop of \<^verbatim>\<open>GameEngine.run(self)\<close>: the handler of the current
  state runs once; \<open>None\<close> is the \<^verbatim>\<open>break\<close> that ends the loop in any other
  state. The three handlers that read the event queue of the window
  (\<^verbatim>\<open>_menu_loop\<close>, \<^verbatim>\<open>_play_loop\<close>, \<^verbatim>\<open>_pause_loop\<close>) are parameters.
\<close>

definition run_iteration ::
  "(GameEngine \<Rightarrow> GameEngine) \<Rightarrow> (GameEngine \<Rightarrow> real \<Rightarrow> GameEngine) \<Rightarrow> (GameEngine \<Rightarrow> GameEngine)
     \<Rightarrow> GameEngine \<Rightarrow> real \<Rightarrow> real \<Rightarrow> GameEngine option" where
  "run_iteration menu_loop play_loop pause_loop e dt now =
    (if state e = MENU then Some (menu_loop e)
     else if state e = PLAYING then Some (play_loop e dt)
     else if state e = GOAL then Some (goal_loop e now)
     else if state e = PAUSED then Some (pause_loop e)
     else None)"

subsection \<open>Predicates and drivers of the specification\<close>

text \<open>
  The numbers \<^verbatim>\<open>float\<close> converts without raising, a float or an int below the
  float range, and the value it returns for them.
\<close>

definition converts :: "number \<Rightarrow> bool" where
  "converts x = (case x of PyFloat r \<Rightarrow> True | PyInt n \<Rightarrow> \<bar>n\<bar> < 2 ^ 1024 - 2 ^ 970)"

fun number_value :: "number \<Rightarrow> real" where
  "number_value (PyFloat r) = r"
| "number_value (PyInt n) = real_of_int n"

text \<open>
  The resource invariant of a player: stamina and flow are between 0 and their maxima
  and no cooldown is negative.
\<close>

definition resource_inv :: "Player \<Rightarrow> bool" where
  "resource_inv p \<longleftrightarrow>
     0 \<le> stamina p \<and> stamina p \<le> max_stamina p
     \<and> 0 \<le> flow p \<and> flow p \<le> max_flow p
     \<and> list_all (\<lambda>kc. 0 \<le> snd kc) (skill_cd p)"

text \<open>
  A run of ticks of one player: each frame supplies the arguments of one call of
  \<^verbatim>\<open>Player.update\<close> (\<open>dt\<close>, the ball \<open>bl\<close>, the roster \<open>ps\<close>) and the clock and random
  values read during it.
\<close>

fun Player_updates ::
  "Player \<Rightarrow> (real \<times> Ball \<times> Player list \<times> real \<times> real) list \<Rightarrow> Player" where
  "Player_updates p [] = p"
| "Player_updates p ((dt, bl, ps, now, rnd) # frames) =
     Player_updates (fst (Player_update p dt bl ps now rnd)) frames"

section \<open>Properties of the ball\<close>

text \<open>
  Claim C1, as stated, asks for the vertical position to lie in
  \<open>[radius, bounds_height - radius]\<close> after every call. Two inputs refute it. A call
  that reports a goal returns before the clamp: the ball at \<open>(5, 100)\<close> with
  velocity \<open>(-10, -10)\<close> and \<open>dt = 1\<close> scores for team B and ends at \<open>y = -500\<close>.
  A field lower than the ball's diameter leaves no such interval: with bounds
  \<open>(800, 10)\<close> the clamp yields \<open>y = 8 > 10 - 8\<close>.
\<close>

theorem Ball_update_vertical_counterexample:
  "fst (Ball_update ((Ball_init 5 100)\<lparr>vel := (-10, -10)\<rparr>) 1 (800, 600)) = Some ''B''
   \<and> snd (Ball.pos (snd (Ball_update ((Ball_init 5 100)\<lparr>vel := (-10, -10)\<rparr>) 1 (800, 600)))) = -500
   \<and> \<not> (real_of_int (radius (snd (Ball_update ((Ball_init 5 100)\<lparr>vel := (-10, -10)\<rparr>) 1 (800, 600))))
        \<le> snd (Ball.pos (snd (Ball_update ((Ball_init 5 100)\<lparr>vel := (-10, -10)\<rparr>) 1 (800, 600)))))
   \<and> fst (Ball_update (Ball_init 400 5) 0 (800, 10)) = None
   \<and> snd (Ball.pos (snd (Ball_update (Ball_init 400 5) 0 (800, 10)))) = 8
   \<and> \<not> (snd (Ball.pos (snd (Ball_update (Ball_init 400 5) 0 (800, 10))))
        \<le> real_of_int (10 - radius (snd (Ball_update (Ball_init 400 5) 0 (800, 10)))))"
  by (simp add: Ball_update_def Ball_init_def Let_def)

text \<open>
  Claim C1, amended: whenever \<open>Ball.update\<close> reports no goal and the field is at least
  as high as the ball's diameter, the vertical position after the call lies in
  \<open>[radius, bounds_height - radius]\<close>, for every \<open>dt\<close>.
\<close>

theorem Ball_update_vertical_clamped:
  assumes "fst (Ball_update b dt bounds) = None"
    and "2 * radius b \<le> snd bounds"
  shows "real_of_int (radius (snd (Ball_update b dt bounds)))
           \<le> snd (Ball.pos (snd (Ball_update b dt bounds)))
       \<and> snd (Ball.pos (snd (Ball_update b dt bounds)))
           \<le> real_of_int (snd bounds - radius (snd (Ball_update b dt bounds)))"
proof -
  have no_goal: "\<not> fst (Ball.pos b) + fst (vel b) * dt * 60 < 0"
    "\<not> fst (Ball.pos b) + fst (vel b) * dt * 60 > real_of_int (fst bounds)"
    using assms(1) by (auto simp: Ball_update_def Let_def split: if_splits)
  have room: "real_of_int (radius b) \<le> real_of_int (snd bounds - radius b)"
    using assms(2) by simp
  show ?thesis
    using no_goal room by (simp add: Ball_update_def Let_def)
qed

theorem Ball_update_vertical_clamped_witness:
  "fst (Ball_update ((Ball_init 400 5)\<lparr>vel := (0, -5)\<rparr>) (1 / 60) (800, 600)) = None
   \<and> 2 * radius ((Ball_init 400 5)\<lparr>vel := (0, -5)\<rparr>) \<le> snd (800 :: int, 600 :: int)
   \<and> snd (Ball.pos (snd (Ball_update ((Ball_init 400 5)\<lparr>vel := (0, -5)\<rparr>) (1 / 60) (800, 600)))) = 8
   \<and> real_of_int (radius (snd (Ball_update ((Ball_init 400 5)\<lparr>vel := (0, -5)\<rparr>) (1 / 60) (800, 600))))
        \<le> snd (Ball.pos (snd (Ball_update ((Ball_init 400 5)\<lparr>vel := (0, -5)\<rparr>) (1 / 60) (800, 600))))
   \<and> snd (Ball.pos (snd (Ball_update ((Ball_init 400 5)\<lparr>vel := (0, -5)\<rparr>) (1 / 60) (800, 600))))
        \<le> real_of_int (snd (800 :: int, 600 :: int)
             - radius (snd (Ball_update ((Ball_init 400 5)\<lparr>vel := (0, -5)\<rparr>) (1 / 60) (800, 600))))"
proof -
  have g: "fst (Ball_update ((Ball_init 400 5)\<lparr>vel := (0, -5)\<rparr>) (1 / 60) (800, 600)) = None"
    by (simp add: Ball_update_def Ball_init_def Let_def)
  have h: "2 * radius ((Ball_init 400 5)\<lparr>vel := (0, -5)\<rparr>) \<le> snd (800 :: int, 600 :: int)"
    by (simp add: Ball_init_def)
  have y: "snd (Ball.pos (snd (Ball_update ((Ball_init 400 5)\<lparr>vel := (0, -5)\<rparr>) (1 / 60) (800, 600)))) = 8"
    by (simp add: Ball_update_def Ball_init_def Let_def)
  from Ball_update_vertical_clamped [OF g h] g h y show ?thesis
    by blast
qed

text \<open>
  Claim C5: the position is advanced by \<open>velocity * dt * 60\<close>, and the reported goal
  is decided by the advanced horizontal position alone: team B when it is below 0,
  team A when it is above the field width, no goal otherwise, so at exactly 0 or exactly
  the width no goal is reported. Without a goal the advanced vertical position is then
  clamped.
\<close>

theorem Ball_update_goal:
  "fst (Ball.pos (snd (Ball_update b dt bounds))) = fst (Ball.pos b) + fst (vel b) * dt * 60
   \<and> fst (Ball_update b dt bounds) =
       (if fst (Ball.pos b) + fst (vel b) * dt * 60 < 0 then Some ''B''
        else if fst (Ball.pos b) + fst (vel b) * dt * 60 > real_of_int (fst bounds) then Some ''A''
        else None)
   \<and> snd (Ball.pos (snd (Ball_update b dt bounds))) =
       (if fst (Ball_update b dt bounds) = None
        then max (real_of_int (radius b))
                 (min (real_of_int (snd bounds - radius b)) (snd (Ball.pos b) + snd (vel b) * dt * 60))
        else snd (Ball.pos b) + snd (vel b) * dt * 60)"
  by (simp add: Ball_update_def Let_def)

text \<open>The two goals of the repository's test, and a ball that lands exactly on the
  left edge and one that lands exactly on the right edge.\<close>

lemma Ball_update_goal_examples:
  "fst (Ball_update ((Ball_init 5 100)\<lparr>vel := (-10, 0)\<rparr>) (1 / 60) (800, 600)) = Some ''B''"
  "fst (Ball_update ((Ball_init 795 100)\<lparr>vel := (10, 0)\<rparr>) (1 / 60) (800, 600)) = Some ''A''"
  "Ball_update ((Ball_init 30 100)\<lparr>vel := (-2, 0)\<rparr>) (1 / 4) (800, 600)
     = (None, (Ball_init 0 100)\<lparr>vel := (-2 * (95 / 100), 0)\<rparr>)"
  "Ball_update ((Ball_init 770 100)\<lparr>vel := (2, 0)\<rparr>) (1 / 4) (800, 600)
     = (None, (Ball_init 800 100)\<lparr>vel := (2 * (95 / 100), 0)\<rparr>)"
  by (simp_all add: Ball_update_def Ball_init_def Let_def)

text \<open>
  Claim C10: with the friction coefficient 0.95 the constructor sets, every call
  multiplies both velocity components by 0.95 and keeps the coefficient, whatever it
  returns; a call that reports a goal leaves the advanced horizontal position beyond the
  bound it crossed.
\<close>

theorem Ball_update_friction:
  assumes "friction b = 95 / 100"
  shows "vel (snd (Ball_update b dt bounds)) = (fst (vel b) * (95 / 100), snd (vel b) * (95 / 100))
       \<and> friction (snd (Ball_update b dt bounds)) = 95 / 100
       \<and> fst (Ball.pos (snd (Ball_update b dt bounds))) = fst (Ball.pos b) + fst (vel b) * dt * 60
       \<and> (fst (Ball_update b dt bounds) = Some ''B''
            \<longrightarrow> fst (Ball.pos (snd (Ball_update b dt bounds))) < 0)
       \<and> (fst (Ball_update b dt bounds) = Some ''A''
            \<longrightarrow> fst (Ball.pos (snd (Ball_update b dt bounds))) > real_of_int (fst bounds))"
  using assms by (simp add: Ball_update_def Let_def)

theorem Ball_update_friction_witness:
  "friction ((Ball_init 795 100)\<lparr>vel := (10, 20)\<rparr>) = 95 / 100
   \<and> fst (Ball_update ((Ball_init 795 100)\<lparr>vel := (10, 20)\<rparr>) 1 (800, 600)) = Some ''A''
   \<and> vel (snd (Ball_update ((Ball_init 795 100)\<lparr>vel := (10, 20)\<rparr>) 1 (800, 600)))
       = (10 * (95 / 100), 20 * (95 / 100))
   \<and> fst (Ball.pos (snd (Ball_update ((Ball_init 795 100)\<lparr>vel := (10, 20)\<rparr>) 1 (800, 600))))
       > real_of_int (fst (800 :: int, 600 :: int))"
proof -
  have f: "friction ((Ball_init 795 100)\<lparr>vel := (10, 20)\<rparr>) = 95 / 100"
    by (simp add: Ball_init_def)
  have g: "fst (Ball_update ((Ball_init 795 100)\<lparr>vel := (10, 20)\<rparr>) 1 (800, 600)) = Some ''A''"
    by (simp add: Ball_update_def Ball_init_def Let_def)
  from Ball_update_friction [OF f, of 1 "(800, 600)"] f g show ?thesis
    by (simp add: Ball_init_def)
qed

section \<open>Properties of the skill system\<close>

lemma map_of_builtin:
  "map_of (skills SkillSystem_init) nm = Some sk \<Longrightarrow>
     0 \<le> flow_cost sk \<and> 0 \<le> stamina_cost sk \<and> 0 \<le> cooldown sk"
  by (auto simp: SkillSystem_init_def register_def AI_MAX_FLOW_def split: if_splits)

text \<open>
  Claim C4: \<open>can_use\<close> holds exactly when the skill is registered, the player's flow
  and stamina reach the skill's costs, and the remaining cooldown of that skill, 0 when
  the player has no entry for it, is at most 0.
\<close>

theorem can_use_iff:
  "can_use ss p nm \<longleftrightarrow>
     (\<exists>sk. map_of (skills ss) nm = Some sk
        \<and> real_of_int (flow_cost sk) \<le> flow p
        \<and> real_of_int (stamina_cost sk) \<le> stamina p
        \<and> (case map_of (skill_cd p) nm of None \<Rightarrow> 0 | Some c \<Rightarrow> c) \<le> 0)"
  by (auto simp: can_use_def get_or_def split: option.splits)

text \<open>The player of the repository's test with flow 40 and stamina 50 may use Field
  Vision; with flow 39, or during the cooldown, or for an unknown skill, it may not.\<close>

lemma can_use_examples:
  "can_use SkillSystem_init
     ((Player_attrs ''Test'' ''A'' STRIKER 1 (100, 100) KEYBOARD)\<lparr>flow := 40, stamina := 50\<rparr>)
     ''Field Vision''"
  "\<not> can_use SkillSystem_init
     ((Player_attrs ''Test'' ''A'' STRIKER 1 (100, 100) KEYBOARD)\<lparr>flow := 39, stamina := 50\<rparr>)
     ''Field Vision''"
  "\<not> can_use SkillSystem_init
     ((Player_attrs ''Test'' ''A'' STRIKER 1 (100, 100) KEYBOARD)
        \<lparr>flow := 40, stamina := 50, skill_cd := [(''Field Vision'', 10)]\<rparr>)
     ''Field Vision''"
  "\<not> can_use SkillSystem_init
     ((Player_attrs ''Test'' ''A'' STRIKER 1 (100, 100) KEYBOARD)\<lparr>flow := 40, stamina := 50\<rparr>)
     ''Flow Vision''"
  by (simp_all add: can_use_def get_or_def SkillSystem_init_def register_def Player_attrs_def
        AI_MAX_FLOW_def)

text \<open>
  Claim C9: \<open>awaken\<close> sets flow to 0, stamina to the player's maximum and
  awakened-until to the invocation time plus 10 seconds, which is later than the
  invocation time, whatever the resources were before.
\<close>

theorem awaken_resets:
  "flow (awaken p now) = 0
   \<and> stamina (awaken p now) = max_stamina p
   \<and> max_stamina (awaken p now) = max_stamina p
   \<and> awakened_until (awaken p now) = now + 10
   \<and> awakened_until (awaken p now) > now"
  by (simp add: awaken_def)

text \<open>\<open>use\<close> never raises: the lookup it repeats succeeded in \<open>can_use\<close>.\<close>

lemma can_use_registered: "can_use ss p nm \<Longrightarrow> \<exists>sk. map_of (skills ss) nm = Some sk"
  by (auto simp: can_use_def split: option.splits)

lemma use_refused: "\<not> can_use ss p nm \<Longrightarrow> use ss p nm now = Inr (False, p)"
  by (simp add: use_def)

lemma use_accepted:
  assumes "can_use ss p nm" and "map_of (skills ss) nm = Some sk"
  shows "use ss p nm now =
           Inr (True,
             if effect_awaken sk
             then awaken (p\<lparr>flow := flow p - real_of_int (flow_cost sk),
                            stamina := stamina p - real_of_int (stamina_cost sk),
                            skill_cd := AList.update nm (cooldown sk) (skill_cd p)\<rparr>) now
             else p\<lparr>flow := flow p - real_of_int (flow_cost sk),
                    stamina := stamina p - real_of_int (stamina_cost sk),
                    skill_cd := AList.update nm (cooldown sk) (skill_cd p)\<rparr>)"
  using assms by (simp add: use_def Let_def)

lemma use_total: "\<exists>r p'. use ss p nm now = Inr (r, p')"
proof (cases "can_use ss p nm")
  case True
  then obtain sk where "map_of (skills ss) nm = Some sk"
    using can_use_registered by blast
  with True show ?thesis
    by (auto simp: use_accepted)
next
  case False
  then show ?thesis
    by (auto simp: use_refused)
qed

text \<open>
  Claim C3, as stated, has every successful \<open>use\<close> deduct exactly the two costs. The
  Awaken skill refutes it: a player with flow 100 and stamina 90 may use it, its stamina
  cost is 0, and the call leaves stamina at 100, not at 90, because \<open>use\<close> ends by
  calling \<open>awaken\<close>.
\<close>

theorem use_deducts_counterexample:
  "can_use SkillSystem_init
     ((Player_attrs ''You'' ''B'' STRIKER 1 (400, 500) KEYBOARD)\<lparr>flow := 100, stamina := 90\<rparr>)
     ''Awaken''
   \<and> map_of (skills SkillSystem_init) ''Awaken''
       = Some \<lparr>Skill.name = ''Awaken'', type = ULTIMATE, flow_cost = 100, stamina_cost = 0,
               cooldown = 0, effect = [(''awaken'', EBool True)]\<rparr>
   \<and> use SkillSystem_init
       ((Player_attrs ''You'' ''B'' STRIKER 1 (400, 500) KEYBOARD)\<lparr>flow := 100, stamina := 90\<rparr>)
       ''Awaken'' 1000
       = Inr (True,
           (Player_attrs ''You'' ''B'' STRIKER 1 (400, 500) KEYBOARD)
             \<lparr>flow := 0, stamina := 100, skill_cd := [(''Awaken'', 0)], awakened_until := 1010\<rparr>)
   \<and> stamina ((Player_attrs ''You'' ''B'' STRIKER 1 (400, 500) KEYBOARD)
                 \<lparr>flow := 0, stamina := 100, skill_cd := [(''Awaken'', 0)], awakened_until := 1010\<rparr>)
       \<noteq> stamina ((Player_attrs ''You'' ''B'' STRIKER 1 (400, 500) KEYBOARD)\<lparr>flow := 100, stamina := 90\<rparr>)
           - real_of_int 0"
  by (simp add: use_def can_use_def get_or_def effect_awaken_def awaken_def Let_def
        SkillSystem_init_def register_def Player_attrs_def AI_MAX_FLOW_def)

text \<open>
  Claim C3, amended: if \<open>can_use\<close> is false, \<open>use\<close> returns false and the player is
  unchanged. If \<open>can_use\<close> is true, \<open>use\<close> returns true and sets the player's
  cooldown entry for the skill to the skill's cooldown; when the skill's effect is not
  the awaken kind it deducts exactly the flow cost and the stamina cost and changes
  nothing else, and when it is the awaken kind flow ends at 0, stamina at the player's
  maximum and awakened-until at the invocation time plus 10. After a successful use of a
  skill with a positive cooldown, \<open>can_use\<close> for that skill is false.
\<close>

theorem use_effect:
  "(\<not> can_use ss p nm \<longrightarrow> use ss p nm now = Inr (False, p))
   \<and> (can_use ss p nm \<longrightarrow>
        (\<exists>sk p'. map_of (skills ss) nm = Some sk
           \<and> use ss p nm now = Inr (True, p')
           \<and> skill_cd p' = AList.update nm (cooldown sk) (skill_cd p)
           \<and> map_of (skill_cd p') nm = Some (cooldown sk)
           \<and> (\<not> effect_awaken sk \<longrightarrow>
                 p' = p\<lparr>flow := flow p - real_of_int (flow_cost sk),
                        stamina := stamina p - real_of_int (stamina_cost sk),
                        skill_cd := AList.update nm (cooldown sk) (skill_cd p)\<rparr>)
           \<and> (effect_awaken sk \<longrightarrow>
                 p' = p\<lparr>flow := 0, stamina := max_stamina p,
                        skill_cd := AList.update nm (cooldown sk) (skill_cd p),
                        awakened_until := now + 10\<rparr>)
           \<and> (0 < cooldown sk \<longrightarrow> \<not> can_use ss p' nm)))"
proof (intro conjI impI)
  assume "\<not> can_use ss p nm"
  then show "use ss p nm now = Inr (False, p)"
    by (rule use_refused)
next
  assume ok: "can_use ss p nm"
  then obtain sk where sk: "map_of (skills ss) nm = Some sk"
    using can_use_registered by blast
  define q where "q = p\<lparr>flow := flow p - real_of_int (flow_cost sk),
                        stamina := stamina p - real_of_int (stamina_cost sk),
                        skill_cd := AList.update nm (cooldown sk) (skill_cd p)\<rparr>"
  define p' where "p' = (if effect_awaken sk then awaken q now else q)"
  have r: "use ss p nm now = Inr (True, p')"
    using use_accepted [OF ok sk] by (simp add: p'_def q_def)
  have cd: "skill_cd p' = AList.update nm (cooldown sk) (skill_cd p)"
    by (simp add: p'_def q_def awaken_def)
  have entry: "map_of (skill_cd p') nm = Some (cooldown sk)"
    by (simp add: cd update_conv')
  have plain: "\<not> effect_awaken sk \<longrightarrow> p' = q"
    by (simp add: p'_def)
  have woken: "effect_awaken sk \<longrightarrow>
      p' = p\<lparr>flow := 0, stamina := max_stamina p,
             skill_cd := AList.update nm (cooldown sk) (skill_cd p),
             awakened_until := now + 10\<rparr>"
    by (simp add: p'_def q_def awaken_def)
  have again: "0 < cooldown sk \<longrightarrow> \<not> can_use ss p' nm"
    by (simp add: can_use_def get_or_def sk entry)
  show "\<exists>sk p'. map_of (skills ss) nm = Some sk
           \<and> use ss p nm now = Inr (True, p')
           \<and> skill_cd p' = AList.update nm (cooldown sk) (skill_cd p)
           \<and> map_of (skill_cd p') nm = Some (cooldown sk)
           \<and> (\<not> effect_awaken sk \<longrightarrow>
                 p' = p\<lparr>flow := flow p - real_of_int (flow_cost sk),
                        stamina := stamina p - real_of_int (stamina_cost sk),
                        skill_cd := AList.update nm (cooldown sk) (skill_cd p)\<rparr>)
           \<and> (effect_awaken sk \<longrightarrow>
                 p' = p\<lparr>flow := 0, stamina := max_stamina p,
                        skill_cd := AList.update nm (cooldown sk) (skill_cd p),
                        awakened_until := now + 10\<rparr>)
           \<and> (0 < cooldown sk \<longrightarrow> \<not> can_use ss p' nm)"
    using sk r cd entry plain woken again unfolding q_def by blast
qed

theorem use_effect_witness:
  "\<not> can_use SkillSystem_init
       ((Player_attrs ''Test'' ''A'' STRIKER 1 (100, 100) KEYBOARD)\<lparr>flow := 40, stamina := 50\<rparr>)
       ''Flow Vision''
   \<and> use SkillSystem_init
       ((Player_attrs ''Test'' ''A'' STRIKER 1 (100, 100) KEYBOARD)\<lparr>flow := 40, stamina := 50\<rparr>)
       ''Flow Vision'' 0
       = Inr (False,
           (Player_attrs ''Test'' ''A'' STRIKER 1 (100, 100) KEYBOARD)\<lparr>flow := 40, stamina := 50\<rparr>)
   \<and> can_use SkillSystem_init
       ((Player_attrs ''Test'' ''A'' STRIKER 1 (100, 100) KEYBOARD)\<lparr>flow := 40, stamina := 50\<rparr>)
       ''Field Vision''
   \<and> use SkillSystem_init
       ((Player_attrs ''Test'' ''A'' STRIKER 1 (100, 100) KEYBOARD)\<lparr>flow := 40, stamina := 50\<rparr>)
       ''Field Vision'' 0
       = Inr (True,
           (Player_attrs ''Test'' ''A'' STRIKER 1 (100, 100) KEYBOARD)
             \<lparr>flow := 0, stamina := 30, skill_cd := [(''Field Vision'', 10)]\<rparr>)
   \<and> \<not> can_use SkillSystem_init
       ((Player_attrs ''Test'' ''A'' STRIKER 1 (100, 100) KEYBOARD)
          \<lparr>flow := 0, stamina := 30, skill_cd := [(''Field Vision'', 10)]\<rparr>)
       ''Field Vision''
   \<and> can_use SkillSystem_init
       ((Player_attrs ''Test'' ''A'' STRIKER 1 (100, 100) KEYBOARD)\<lparr>flow := 100, stamina := 50\<rparr>)
       ''Awaken''
   \<and> use SkillSystem_init
       ((Player_attrs ''Test'' ''A'' STRIKER 1 (100, 100) KEYBOARD)\<lparr>flow := 100, stamina := 50\<rparr>)
       ''Awaken'' 7
       = Inr (True,
           (Player_attrs ''Test'' ''A'' STRIKER 1 (100, 100) KEYBOARD)
             \<lparr>flow := 0, stamina := 100, skill_cd := [(''Awaken'', 0)], awakened_until := 17\<rparr>)"
proof -
  define P where
    "P = (Player_attrs ''Test'' ''A'' STRIKER 1 (100, 100) KEYBOARD)\<lparr>flow := 40, stamina := 50\<rparr>"
  define Q where
    "Q = (Player_attrs ''Test'' ''A'' STRIKER 1 (100, 100) KEYBOARD)\<lparr>flow := 100, stamina := 50\<rparr>"
  define FV where
    "FV = \<lparr>Skill.name = ''Field Vision'', type = FLOW, flow_cost = 40, stamina_cost = 20,
            cooldown = 10, effect = [(''buff'', EBool True)]\<rparr>"
  define AW where
    "AW = \<lparr>Skill.name = ''Awaken'', type = ULTIMATE, flow_cost = 100, stamina_cost = 0,
            cooldown = 0, effect = [(''awaken'', EBool True)]\<rparr>"
  have no: "\<not> can_use SkillSystem_init P ''Flow Vision''"
    by (simp add: can_use_def SkillSystem_init_def register_def)
  have r0: "use SkillSystem_init P ''Flow Vision'' 0 = Inr (False, P)"
    using use_effect [of SkillSystem_init P "''Flow Vision''" 0] no by blast
  have fv: "map_of (skills SkillSystem_init) ''Field Vision'' = Some FV"
    by (simp add: SkillSystem_init_def register_def FV_def)
  have aw: "map_of (skills SkillSystem_init) ''Awaken'' = Some AW"
    by (simp add: SkillSystem_init_def register_def AW_def AI_MAX_FLOW_def)
  have yes: "can_use SkillSystem_init P ''Field Vision''"
    by (simp add: can_use_def get_or_def fv FV_def P_def Player_attrs_def)
  have yes': "can_use SkillSystem_init Q ''Awaken''"
    by (simp add: can_use_def get_or_def aw AW_def Q_def Player_attrs_def)
  have fv_plain: "\<not> effect_awaken FV" "0 < cooldown FV"
    by (simp_all add: effect_awaken_def FV_def)
  have aw_wakes: "effect_awaken AW"
    by (simp add: effect_awaken_def AW_def)
  obtain p' where r1: "use SkillSystem_init P ''Field Vision'' 0 = Inr (True, p')"
    and p': "p' = P\<lparr>flow := flow P - real_of_int (flow_cost FV),
                     stamina := stamina P - real_of_int (stamina_cost FV),
                     skill_cd := AList.update ''Field Vision'' (cooldown FV) (skill_cd P)\<rparr>"
    and again: "\<not> can_use SkillSystem_init p' ''Field Vision''"
    using use_effect [of SkillSystem_init P "''Field Vision''" 0] yes fv fv_plain by auto
  obtain q' where r2: "use SkillSystem_init Q ''Awaken'' 7 = Inr (True, q')"
    and q': "q' = Q\<lparr>flow := 0, stamina := max_stamina Q,
                     skill_cd := AList.update ''Awaken'' (cooldown AW) (skill_cd Q),
                     awakened_until := 7 + 10\<rparr>"
    using use_effect [of SkillSystem_init Q "''Awaken''" 7] yes' aw aw_wakes by auto
  have p'_eq: "p' = (Player_attrs ''Test'' ''A'' STRIKER 1 (100, 100) KEYBOARD)
                      \<lparr>flow := 0, stamina := 30, skill_cd := [(''Field Vision'', 10)]\<rparr>"
    by (simp add: p' P_def FV_def Player_attrs_def)
  have q'_eq: "q' = (Player_attrs ''Test'' ''A'' STRIKER 1 (100, 100) KEYBOARD)
                      \<lparr>flow := 0, stamina := 100, skill_cd := [(''Awaken'', 0)], awakened_until := 17\<rparr>"
    by (simp add: q' Q_def AW_def Player_attrs_def)
  show ?thesis
    using no r0 yes r1 again yes' r2 unfolding p'_eq q'_eq P_def Q_def by blast
qed

section \<open>Properties of the player\<close>

subsection \<open>The resource invariant\<close>

lemma move_resources:
  "stamina (move p target now) = stamina p" "max_stamina (move p target now) = max_stamina p"
  "flow (move p target now) = flow p" "max_flow (move p target now) = max_flow p"
  "skill_cd (move p target now) = skill_cd p"
  by (simp_all add: move_def Let_def)

lemma ai_resources:
  "stamina (fst (ai p dt bl ps now rnd)) = stamina p"
  "max_stamina (fst (ai p dt bl ps now rnd)) = max_stamina p"
  "flow (fst (ai p dt bl ps now rnd)) = flow p"
  "max_flow (fst (ai p dt bl ps now rnd)) = max_flow p"
  "skill_cd (fst (ai p dt bl ps now rnd)) = skill_cd p"
  by (simp_all add: ai_def Let_def move_resources)

lemma resource_inv_ai: "resource_inv (fst (ai p dt bl ps now rnd)) = resource_inv p"
  by (simp add: resource_inv_def ai_resources)

lemma decay_nonneg:
  "list_all (\<lambda>kc. 0 \<le> snd kc) (map (\<lambda>(k, c). (k, max 0 (c - dt))) (cd :: (string \<times> real) list))"
  by (induction cd) auto

lemma resource_inv_update:
  assumes "resource_inv p" and "0 \<le> dt"
  shows "resource_inv (fst (Player_update p dt bl ps now rnd))"
proof -
  define p2 where
    "p2 = p\<lparr>skill_cd := map (\<lambda>(k, c). (k, max 0 (c - dt))) (skill_cd p),
           flow := min (max_flow p) (flow p + dt * 5)\<rparr>"
  have "0 \<le> flow p + dt * 5"
    using assms by (simp add: resource_inv_def)
  moreover have "0 \<le> max_flow p"
    using assms by (simp add: resource_inv_def)
  ultimately have "resource_inv p2"
    using assms(1) by (simp add: resource_inv_def p2_def decay_nonneg)
  moreover have "fst (Player_update p dt bl ps now rnd)
      = (if control p = AI then fst (ai p2 dt bl ps now rnd) else p2)"
    by (simp add: Player_update_def Let_def p2_def)
  ultimately show ?thesis
    by (simp add: resource_inv_ai)
qed

lemma resource_inv_updates:
  "resource_inv p \<Longrightarrow> list_all (\<lambda>f. 0 \<le> fst f) frames \<Longrightarrow> resource_inv (Player_updates p frames)"
proof (induction p frames rule: Player_updates.induct)
  case (1 p)
  then show ?case by simp
next
  case (2 p dt bl ps now rnd frames)
  from "2.prems" have "resource_inv (fst (Player_update p dt bl ps now rnd))"
    by (simp add: resource_inv_update)
  with "2.prems" show ?case
    by (simp add: "2.IH")
qed

lemma resource_inv_awaken: "resource_inv p \<Longrightarrow> resource_inv (awaken p now)"
  by (simp add: resource_inv_def awaken_def)

lemma list_all_update:
  "list_all P al \<Longrightarrow> P (k, v) \<Longrightarrow> list_all P (AList.update k v al)"
  by (induction al) auto

text \<open>\<open>use\<close> keeps the invariant for every registry whose skill, when found, has
  non-negative costs and a non-negative cooldown.\<close>

lemma resource_inv_use:
  assumes inv: "resource_inv p"
    and reg: "\<And>sk. map_of (skills ss) nm = Some sk \<Longrightarrow>
                 0 \<le> flow_cost sk \<and> 0 \<le> stamina_cost sk \<and> 0 \<le> cooldown sk"
    and res: "use ss p nm now = Inr (r, p')"
  shows "resource_inv p'"
proof (cases "can_use ss p nm")
  case False
  with res inv show ?thesis
    by (simp add: use_refused)
next
  case True
  then obtain sk where sk: "map_of (skills ss) nm = Some sk"
    using can_use_registered by blast
  have costs: "0 \<le> flow_cost sk" "0 \<le> stamina_cost sk" "0 \<le> cooldown sk"
    using reg [OF sk] by simp_all
  have enough: "real_of_int (flow_cost sk) \<le> flow p" "real_of_int (stamina_cost sk) \<le> stamina p"
    using True sk by (auto simp: can_use_def split: if_splits)
  define q where "q = p\<lparr>flow := flow p - real_of_int (flow_cost sk),
                        stamina := stamina p - real_of_int (stamina_cost sk),
                        skill_cd := AList.update nm (cooldown sk) (skill_cd p)\<rparr>"
  have "list_all (\<lambda>kc. 0 \<le> snd kc) (AList.update nm (cooldown sk) (skill_cd p))"
    using inv costs(3) by (intro list_all_update) (simp_all add: resource_inv_def)
  then have q: "resource_inv q"
    using inv costs enough by (simp add: resource_inv_def q_def)
  have "p' = (if effect_awaken sk then awaken q now else q)"
    using res use_accepted [OF True sk, of now] by (auto simp: q_def)
  with q show ?thesis
    by (simp add: resource_inv_awaken)
qed

text \<open>
  Claim C6: from any player state satisfying the resource invariant, any number of
  ticks of \<open>Player.update\<close> with non-negative \<open>dt\<close>, a call of \<open>use\<close> of the game's
  skill system (which always returns) and a call of \<open>awaken\<close> each lead to a state
  satisfying it.
\<close>

theorem resource_inv_preserved:
  assumes "resource_inv p" and "list_all (\<lambda>f. 0 \<le> fst f) frames"
  shows "resource_inv (Player_updates p frames)
       \<and> (\<exists>r p'. use SkillSystem_init p nm now = Inr (r, p') \<and> resource_inv p')
       \<and> resource_inv (awaken p now)"
proof -
  obtain r p' where res: "use SkillSystem_init p nm now = Inr (r, p')"
    using use_total by blast
  have "resource_inv p'"
    using assms(1) map_of_builtin res by (rule resource_inv_use)
  with res assms show ?thesis
    by (simp add: resource_inv_updates resource_inv_awaken)
qed

theorem resource_inv_preserved_witness:
  "resource_inv ((Player_attrs ''You'' ''B'' STRIKER 1 (400, 500) KEYBOARD)
                   \<lparr>flow := 99, stamina := 50, skill_cd := [(''Power Shot'', 1 / 8)]\<rparr>)
   \<and> list_all (\<lambda>f. 0 \<le> fst f)
        [(1 / 4, Ball_init 400 300, [], 0, 1 / 2), (1 / 4 :: real, Ball_init 400 300, [], 1 / 4, 1 / 2)]
   \<and> resource_inv
        (Player_updates
           ((Player_attrs ''You'' ''B'' STRIKER 1 (400, 500) KEYBOARD)
              \<lparr>flow := 99, stamina := 50, skill_cd := [(''Power Shot'', 1 / 8)]\<rparr>)
           [(1 / 4, Ball_init 400 300, [], 0, 1 / 2), (1 / 4, Ball_init 400 300, [], 1 / 4, 1 / 2)])
   \<and> Player_updates
        ((Player_attrs ''You'' ''B'' STRIKER 1 (400, 500) KEYBOARD)
           \<lparr>flow := 99, stamina := 50, skill_cd := [(''Power Shot'', 1 / 8)]\<rparr>)
        [(1 / 4, Ball_init 400 300, [], 0, 1 / 2), (1 / 4, Ball_init 400 300, [], 1 / 4, 1 / 2)]
       = (Player_attrs ''You'' ''B'' STRIKER 1 (400, 500) KEYBOARD)
           \<lparr>flow := 100, stamina := 50, skill_cd := [(''Power Shot'', 0)]\<rparr>
   \<and> (\<exists>r p'. use SkillSystem_init
                 ((Player_attrs ''You'' ''B'' STRIKER 1 (400, 500) KEYBOARD)
                    \<lparr>flow := 99, stamina := 50, skill_cd := [(''Power Shot'', 1 / 8)]\<rparr>)
                 ''Iron Tackle'' 0 = Inr (r, p')
          \<and> resource_inv p')
   \<and> resource_inv
        (awaken ((Player_attrs ''You'' ''B'' STRIKER 1 (400, 500) KEYBOARD)
                   \<lparr>flow := 99, stamina := 50, skill_cd := [(''Power Shot'', 1 / 8)]\<rparr>) 0)"
proof -
  define P where
    "P = (Player_attrs ''You'' ''B'' STRIKER 1 (400, 500) KEYBOARD)
           \<lparr>flow := 99, stamina := 50, skill_cd := [(''Power Shot'', 1 / 8)]\<rparr>"
  define frames :: "(real \<times> Ball \<times> Player list \<times> real \<times> real) list" where
    "frames = [(1 / 4, Ball_init 400 300, [], 0, 1 / 2), (1 / 4, Ball_init 400 300, [], 1 / 4, 1 / 2)]"
  have inv: "resource_inv P"
    by (simp add: resource_inv_def P_def Player_attrs_def AI_MAX_FLOW_def)
  have dts: "list_all (\<lambda>f. 0 \<le> fst f) frames"
    by (simp add: frames_def)
  have run: "Player_updates P frames
      = (Player_attrs ''You'' ''B'' STRIKER 1 (400, 500) KEYBOARD)
          \<lparr>flow := 100, stamina := 50, skill_cd := [(''Power Shot'', 0)]\<rparr>"
    by (simp add: frames_def P_def Player_update_def Player_attrs_def AI_MAX_FLOW_def Let_def)
  from resource_inv_preserved [OF inv dts, of "''Iron Tackle''" 0] inv dts run
  show ?thesis
    unfolding P_def frames_def by simp
qed

subsection \<open>Snapshots\<close>

text \<open>The constructor on numbers that convert, such as the int coordinates at which the
  game creates its players.\<close>

lemma py_float_converts: "converts x \<Longrightarrow> py_float x = Inr (number_value x)"
  by (cases x) (simp_all add: converts_def py_float_def)

lemma Player_init_converts:
  "converts x \<Longrightarrow> converts y \<Longrightarrow>
     Player_init nm tm pt lvl (x # y # rest) ctl
       = Inr (Player_attrs nm tm pt lvl (number_value x, number_value y) ctl)"
  by (simp add: Player_init_def py_float_converts)

lemma Player_init_examples:
  "Player_init ''You'' ''B'' STRIKER 1 [PyInt 400, PyInt 500] KEYBOARD
     = Inr (Player_attrs ''You'' ''B'' STRIKER 1 (400, 500) KEYBOARD)"
  "Player_init ''Test'' ''A'' STRIKER 1 [PyInt 100, PyInt 100] KEYBOARD
     = Inr (Player_attrs ''Test'' ''A'' STRIKER 1 (100, 100) KEYBOARD)"
  "Player_init ''Alex'' ''A'' STRIKER 6 [PyInt (2 ^ 1024), PyInt 0] AI = Inl OverflowError"
  "Player_init ''Alex'' ''A'' STRIKER 6 [PyInt 100] AI = Inl IndexError"
  by (simp_all add: Player_init_def py_float_def)

lemma PlayerType_of_value: "PlayerType_of (PlayerType_value pt) = Inr pt"
  by (cases pt) (simp_all add: PlayerType_of_def)

lemma ControlType_of_value: "ControlType_of (ControlType_value ctl) = Inr ctl"
  by (cases ctl) (simp_all add: ControlType_of_def)

text \<open>
  Claim C7: loading the snapshot \<open>to_dict\<close> writes succeeds and returns the player it
  was written from, every field equal; \<open>size\<close>, the one field the snapshot does not
  carry, is the constructor's constant 24.
\<close>

theorem from_dict_to_dict: "from_dict (to_dict p) = Inr (p\<lparr>size_p := 24\<rparr>)"
  by (cases p)
     (simp add: from_dict_def to_dict_def get_or_def Player_init_def py_float_def
        Player_attrs_def Let_def PlayerType_of_value ControlType_of_value)

text \<open>
  Claim C2, as stated, has \<open>from_dict\<close> default every missing field. The keys
  \<open>name\<close> and \<open>team\<close> have no default: the empty dictionary, and the snapshot of a
  player with only \<open>name\<close> or only \<open>team\<close> removed, raise \<open>KeyError\<close>.
\<close>

theorem from_dict_missing_counterexample:
  "from_dict \<lparr>d_name = None, d_team = None, d_ptype = None, d_ai_lvl = None, d_pos = None,
              d_control = None, d_level = None, d_exp = None, d_score = None,
              d_max_stamina = None, d_max_flow = None, d_stamina = None, d_flow = None,
              d_skill_cd = None, d_awakened_until = None\<rparr> = Inl KeyError
   \<and> from_dict ((to_dict (Player_attrs ''Alex'' ''A'' STRIKER 6 (100, 100) AI))\<lparr>d_name := None\<rparr>)
       = Inl KeyError
   \<and> from_dict ((to_dict (Player_attrs ''Alex'' ''A'' STRIKER 6 (100, 100) AI))\<lparr>d_team := None\<rparr>)
       = Inl KeyError"
  by (simp add: from_dict_def to_dict_def)

lemma ptype_lookup:
  assumes "\<forall>s. v = Some s \<longrightarrow> (\<exists>pt. s = PlayerType_value pt)"
  shows "\<exists>pt. PlayerType_of (get_or v (PlayerType_value STRIKER)) = Inr pt
           \<and> (v = None \<longrightarrow> pt = STRIKER)
           \<and> (\<forall>s. v = Some s \<longrightarrow> PlayerType_value pt = s)"
proof (cases v)
  case None
  have "PlayerType_of (get_or None (PlayerType_value STRIKER)) = Inr STRIKER"
    unfolding get_or_def option.case by (rule PlayerType_of_value)
  with None show ?thesis
    by blast
next
  case (Some s)
  with assms obtain pt where s: "s = PlayerType_value pt"
    by blast
  have "PlayerType_of (get_or (Some (PlayerType_value pt)) (PlayerType_value STRIKER)) = Inr pt"
    unfolding get_or_def option.case by (rule PlayerType_of_value)
  with Some s show ?thesis
    by blast
qed

lemma control_lookup:
  assumes "\<forall>s. v = Some s \<longrightarrow> (\<exists>ctl. s = ControlType_value ctl)"
  shows "\<exists>ctl. ControlType_of (get_or v (ControlType_value AI)) = Inr ctl
           \<and> (v = None \<longrightarrow> ctl = AI)
           \<and> (\<forall>s. v = Some s \<longrightarrow> ControlType_value ctl = s)"
proof (cases v)
  case None
  have "ControlType_of (get_or None (ControlType_value AI)) = Inr AI"
    unfolding get_or_def option.case by (rule ControlType_of_value)
  with None show ?thesis
    by blast
next
  case (Some s)
  with assms obtain ctl where s: "s = ControlType_value ctl"
    by blast
  have "ControlType_of (get_or (Some (ControlType_value ctl)) (ControlType_value AI)) = Inr ctl"
    unfolding get_or_def option.case by (rule ControlType_of_value)
  with Some s show ?thesis
    by blast
qed

lemma pos_lookup:
  assumes "\<forall>l. v = Some l \<longrightarrow> 2 \<le> length l \<and> converts (l ! 0) \<and> converts (l ! 1)"
  shows "\<exists>x y. Player_init nm tm pt lvl (get_or v [PyInt 0, PyInt 0]) ctl
                 = Inr (Player_attrs nm tm pt lvl (x, y) ctl)
           \<and> (case v of None \<Rightarrow> (0, 0)
               | Some l \<Rightarrow> (number_value (l ! 0), number_value (l ! 1))) = (x, y)"
proof (cases v)
  case None
  have zero: "converts (PyInt 0)"
    by (simp add: converts_def)
  from zero zero have "Player_init nm tm pt lvl [PyInt 0, PyInt 0] ctl
      = Inr (Player_attrs nm tm pt lvl (number_value (PyInt 0), number_value (PyInt 0)) ctl)"
    by (rule Player_init_converts)
  with None show ?thesis
    by (simp add: get_or_def)
next
  case (Some l)
  with assms have l: "2 \<le> length l" "converts (l ! 0)" "converts (l ! 1)"
    by simp_all
  from l(1) obtain a b rest where abr: "l = a # b # rest"
    by (cases l; cases "tl l") auto
  with l have "converts a" "converts b"
    by simp_all
  then have "Player_init nm tm pt lvl (a # b # rest) ctl
      = Inr (Player_attrs nm tm pt lvl (number_value a, number_value b) ctl)"
    by (rule Player_init_converts)
  with Some abr show ?thesis
    by (simp add: get_or_def)
qed

lemma from_dict_loaded:
  assumes "d_name d = Some nm" and "d_team d = Some tm"
    and "PlayerType_of (get_or (d_ptype d) (PlayerType_value STRIKER)) = Inr pt"
    and "ControlType_of (get_or (d_control d) (ControlType_value AI)) = Inr ctl"
    and "Player_init nm tm pt (get_or (d_ai_lvl d) 1) (get_or (d_pos d) [PyInt 0, PyInt 0]) ctl
           = Inr (Player_attrs nm tm pt (get_or (d_ai_lvl d) 1) (x, y) ctl)"
  shows "from_dict d =
     Inr \<lparr>Player.name = nm, team = tm, ptype = pt, ai_lvl = get_or (d_ai_lvl d) 1,
          control = ctl, pos = (x, y), size_p = 24,
          level = get_or (d_level d) 1, exp_p = get_or (d_exp d) 0,
          score = get_or (d_score d) 0,
          max_stamina = get_or (d_max_stamina d) 100,
          max_flow = get_or (d_max_flow d) 100,
          stamina = get_or (d_stamina d) (get_or (d_max_stamina d) 100),
          flow = get_or (d_flow d) 0,
          skill_cd = get_or (d_skill_cd d) [],
          awakened_until = get_or (d_awakened_until d) 0\<rparr>"
  unfolding from_dict_def using assms
  by (simp add: Let_def Player_attrs_def AI_MAX_FLOW_def del: PlayerType_value.simps ControlType_value.simps)

text \<open>
  A position that is present can still make the load raise: the constructor's
  \<^verbatim>\<open>float\<close> raises \<^verbatim>\<open>OverflowError\<close> on the int \<open>2 ^ 1024\<close>, and a
  position with one coordinate raises \<^verbatim>\<open>IndexError\<close>.
\<close>

lemma from_dict_position_errors:
  "from_dict \<lparr>d_name = Some ''Alex'', d_team = Some ''A'', d_ptype = None, d_ai_lvl = None,
              d_pos = Some [PyInt (2 ^ 1024), PyInt 0], d_control = None, d_level = None,
              d_exp = None, d_score = None, d_max_stamina = None, d_max_flow = None,
              d_stamina = None, d_flow = None, d_skill_cd = None, d_awakened_until = None\<rparr>
     = Inl OverflowError"
  "from_dict \<lparr>d_name = Some ''Alex'', d_team = Some ''A'', d_ptype = None, d_ai_lvl = None,
              d_pos = Some [PyFloat 100], d_control = None, d_level = None,
              d_exp = None, d_score = None, d_max_stamina = None, d_max_flow = None,
              d_stamina = None, d_flow = None, d_skill_cd = None, d_awakened_until = None\<rparr>
     = Inl IndexError"
  by (simp_all add: from_dict_def get_or_def PlayerType_of_def ControlType_of_def
        Player_init_def py_float_def)

text \<open>
  Claim C2, amended: \<open>from_dict\<close> applies a default for every missing field other than
  \<open>name\<close> and \<open>team\<close>: role striker, AI level 1, position (0, 0), control AI, level
  1, experience 0, score 0, both maxima 100, stamina the loaded maximum, flow 0, no
  cooldowns, awakened-until 0. Loading a snapshot that has \<open>name\<close> and \<open>team\<close> and
  lacks any subset of the other fields raises nothing, provided a role or control that is
  present is the value of an enum member and a position that is present has at least two
  coordinates, the first two of them floats or ints of magnitude below
  \<open>2 ^ 1024 - 2 ^ 970\<close>, which \<^verbatim>\<open>float\<close> converts.
\<close>

theorem from_dict_defaults:
  assumes "d_name d = Some nm" and "d_team d = Some tm"
    and "\<forall>s. d_ptype d = Some s \<longrightarrow> (\<exists>pt. s = PlayerType_value pt)"
    and "\<forall>s. d_control d = Some s \<longrightarrow> (\<exists>ctl. s = ControlType_value ctl)"
    and "\<forall>l. d_pos d = Some l \<longrightarrow> 2 \<le> length l \<and> converts (l ! 0) \<and> converts (l ! 1)"
  shows "\<exists>p. from_dict d = Inr p
     \<and> Player.name p = nm \<and> team p = tm
     \<and> (d_ptype d = None \<longrightarrow> ptype p = STRIKER)
     \<and> (\<forall>s. d_ptype d = Some s \<longrightarrow> PlayerType_value (ptype p) = s)
     \<and> ai_lvl p = (case d_ai_lvl d of None \<Rightarrow> 1 | Some v \<Rightarrow> v)
     \<and> Player.pos p = (case d_pos d of None \<Rightarrow> (0, 0)
                         | Some l \<Rightarrow> (number_value (l ! 0), number_value (l ! 1)))
     \<and> (d_control d = None \<longrightarrow> control p = AI)
     \<and> (\<forall>s. d_control d = Some s \<longrightarrow> ControlType_value (control p) = s)
     \<and> size_p p = 24
     \<and> level p = (case d_level d of None \<Rightarrow> 1 | Some v \<Rightarrow> v)
     \<and> exp_p p = (case d_exp d of None \<Rightarrow> 0 | Some v \<Rightarrow> v)
     \<and> score p = (case d_score d of None \<Rightarrow> 0 | Some v \<Rightarrow> v)
     \<and> max_stamina p = (case d_max_stamina d of None \<Rightarrow> 100 | Some v \<Rightarrow> v)
     \<and> max_flow p = (case d_max_flow d of None \<Rightarrow> 100 | Some v \<Rightarrow> v)
     \<and> stamina p = (case d_stamina d of None \<Rightarrow> max_stamina p | Some v \<Rightarrow> v)
     \<and> flow p = (case d_flow d of None \<Rightarrow> 0 | Some v \<Rightarrow> v)
     \<and> skill_cd p = (case d_skill_cd d of None \<Rightarrow> [] | Some v \<Rightarrow> v)
     \<and> awakened_until p = (case d_awakened_until d of None \<Rightarrow> 0 | Some v \<Rightarrow> v)"
proof -
  from ptype_lookup [OF assms(3)] obtain pt
    where pt_all: "PlayerType_of (get_or (d_ptype d) (PlayerType_value STRIKER)) = Inr pt
           \<and> (d_ptype d = None \<longrightarrow> pt = STRIKER)
           \<and> (\<forall>s. d_ptype d = Some s \<longrightarrow> PlayerType_value pt = s)" ..
  from pt_all have pt: "PlayerType_of (get_or (d_ptype d) (PlayerType_value STRIKER)) = Inr pt"
    by (rule conjunct1)
  from pt_all have pt_none: "d_ptype d = None \<longrightarrow> pt = STRIKER"
    by (rule conjunct2 [THEN conjunct1])
  from pt_all have pt_some: "\<forall>s. d_ptype d = Some s \<longrightarrow> PlayerType_value pt = s"
    by (rule conjunct2 [THEN conjunct2])
  from control_lookup [OF assms(4)] obtain ctl
    where ctl_all: "ControlType_of (get_or (d_control d) (ControlType_value AI)) = Inr ctl
           \<and> (d_control d = None \<longrightarrow> ctl = AI)
           \<and> (\<forall>s. d_control d = Some s \<longrightarrow> ControlType_value ctl = s)" ..
  from ctl_all have ctl: "ControlType_of (get_or (d_control d) (ControlType_value AI)) = Inr ctl"
    by (rule conjunct1)
  from ctl_all have ctl_none: "d_control d = None \<longrightarrow> ctl = AI"
    by (rule conjunct2 [THEN conjunct1])
  from ctl_all have ctl_some: "\<forall>s. d_control d = Some s \<longrightarrow> ControlType_value ctl = s"
    by (rule conjunct2 [THEN conjunct2])
  from pos_lookup [OF assms(5), of nm tm pt "get_or (d_ai_lvl d) 1" ctl] obtain x y
    where xy_all: "Player_init nm tm pt (get_or (d_ai_lvl d) 1) (get_or (d_pos d) [PyInt 0, PyInt 0]) ctl
                     = Inr (Player_attrs nm tm pt (get_or (d_ai_lvl d) 1) (x, y) ctl)
           \<and> (case d_pos d of None \<Rightarrow> (0, 0)
               | Some l \<Rightarrow> (number_value (l ! 0), number_value (l ! 1))) = (x, y)"
    by (elim exE)
  from xy_all have xy: "Player_init nm tm pt (get_or (d_ai_lvl d) 1) (get_or (d_pos d) [PyInt 0, PyInt 0]) ctl
                     = Inr (Player_attrs nm tm pt (get_or (d_ai_lvl d) 1) (x, y) ctl)"
    by (rule conjunct1)
  from xy_all have xy_pos: "(case d_pos d of None \<Rightarrow> (0, 0)
               | Some l \<Rightarrow> (number_value (l ! 0), number_value (l ! 1))) = (x, y)"
    by (rule conjunct2)
  define p where
    "p = \<lparr>Player.name = nm, team = tm, ptype = pt, ai_lvl = get_or (d_ai_lvl d) 1,
           control = ctl, pos = (x, y), size_p = 24,
           level = get_or (d_level d) 1, exp_p = get_or (d_exp d) 0,
           score = get_or (d_score d) 0,
           max_stamina = get_or (d_max_stamina d) 100,
           max_flow = get_or (d_max_flow d) 100,
           stamina = get_or (d_stamina d) (get_or (d_max_stamina d) 100),
           flow = get_or (d_flow d) 0,
           skill_cd = get_or (d_skill_cd d) [],
           awakened_until = get_or (d_awakened_until d) 0\<rparr>"
  have loaded: "from_dict d = Inr p"
    unfolding p_def using assms(1,2) pt ctl xy by (rule from_dict_loaded)
  have fields: "Player.name p = nm" "team p = tm" "ptype p = pt" "control p = ctl"
    "Player.pos p = (x, y)" "size_p p = 24"
    by (simp_all add: p_def)
  have defaults: "ai_lvl p = (case d_ai_lvl d of None \<Rightarrow> 1 | Some v \<Rightarrow> v)"
    "level p = (case d_level d of None \<Rightarrow> 1 | Some v \<Rightarrow> v)"
    "exp_p p = (case d_exp d of None \<Rightarrow> 0 | Some v \<Rightarrow> v)"
    "score p = (case d_score d of None \<Rightarrow> 0 | Some v \<Rightarrow> v)"
    "max_stamina p = (case d_max_stamina d of None \<Rightarrow> 100 | Some v \<Rightarrow> v)"
    "max_flow p = (case d_max_flow d of None \<Rightarrow> 100 | Some v \<Rightarrow> v)"
    "stamina p = (case d_stamina d of None \<Rightarrow> max_stamina p | Some v \<Rightarrow> v)"
    "flow p = (case d_flow d of None \<Rightarrow> 0 | Some v \<Rightarrow> v)"
    "skill_cd p = (case d_skill_cd d of None \<Rightarrow> [] | Some v \<Rightarrow> v)"
    "awakened_until p = (case d_awakened_until d of None \<Rightarrow> 0 | Some v \<Rightarrow> v)"
    by (simp_all add: p_def get_or_def split: option.split)
  show ?thesis
    apply (rule exI [of _ p])
    apply (intro conjI)
    apply (rule loaded)
    apply (rule fields(1))
    apply (rule fields(2))
    using pt_none apply (simp only: fields(3))
    using pt_some apply (simp only: fields(3))
    apply (rule defaults(1))
    apply (simp only: fields(5) xy_pos)
    using ctl_none apply (simp only: fields(4))
    using ctl_some apply (simp only: fields(4))
    apply (rule fields(6))
    apply (rule defaults(2))
    apply (rule defaults(3))
    apply (rule defaults(4))
    apply (rule defaults(5))
    apply (rule defaults(6))
    apply (rule defaults(7))
    apply (rule defaults(8))
    apply (rule defaults(9))
    apply (rule defaults(10))
    done
qed

theorem from_dict_defaults_witness:
  "from_dict \<lparr>d_name = Some ''Alex'', d_team = Some ''A'', d_ptype = None, d_ai_lvl = None,
              d_pos = Some [PyInt 400, PyFloat (1001 / 2)], d_control = None, d_level = None,
              d_exp = None, d_score = None,
              d_max_stamina = Some 80, d_max_flow = None, d_stamina = None, d_flow = None,
              d_skill_cd = None, d_awakened_until = None\<rparr>
     = Inr ((Player_attrs ''Alex'' ''A'' STRIKER 1 (400, 1001 / 2) AI)
             \<lparr>max_stamina := 80, stamina := 80\<rparr>)
   \<and> (\<exists>p. from_dict \<lparr>d_name = Some ''Alex'', d_team = Some ''A'', d_ptype = None, d_ai_lvl = None,
              d_pos = Some [PyInt 400, PyFloat (1001 / 2)], d_control = None, d_level = None,
              d_exp = None, d_score = None,
              d_max_stamina = Some 80, d_max_flow = None, d_stamina = None, d_flow = None,
              d_skill_cd = None, d_awakened_until = None\<rparr> = Inr p
          \<and> ptype p = STRIKER \<and> control p = AI \<and> max_stamina p = 80 \<and> stamina p = 80
          \<and> flow p = 0 \<and> Player.pos p = (400, 1001 / 2))"
proof -
  define d where
    "d = \<lparr>d_name = Some ''Alex'', d_team = Some ''A'', d_ptype = None, d_ai_lvl = None,
           d_pos = Some [PyInt 400, PyFloat (1001 / 2)], d_control = None, d_level = None,
           d_exp = None, d_score = None,
           d_max_stamina = Some 80, d_max_flow = None, d_stamina = None, d_flow = None,
           d_skill_cd = None, d_awakened_until = None\<rparr>"
  have keys: "d_name d = Some ''Alex''" "d_team d = Some ''A''"
    by (simp_all add: d_def)
  have present: "\<forall>s. d_ptype d = Some s \<longrightarrow> (\<exists>pt. s = PlayerType_value pt)"
    "\<forall>s. d_control d = Some s \<longrightarrow> (\<exists>ctl. s = ControlType_value ctl)"
    "\<forall>l. d_pos d = Some l \<longrightarrow> 2 \<le> length l \<and> converts (l ! 0) \<and> converts (l ! 1)"
    by (simp_all add: d_def converts_def)
  have absent: "d_ptype d = None" "d_control d = None" "d_stamina d = None" "d_flow d = None"
    "d_max_stamina d = Some 80" "d_pos d = Some [PyInt 400, PyFloat (1001 / 2)]"
    by (simp_all add: d_def)
  have loaded: "from_dict d
      = Inr ((Player_attrs ''Alex'' ''A'' STRIKER 1 (400, 1001 / 2) AI)
              \<lparr>max_stamina := 80, stamina := 80\<rparr>)"
    by (simp add: d_def from_dict_def get_or_def PlayerType_of_def ControlType_of_def
          Player_init_def py_float_def Player_attrs_def Let_def)
  from from_dict_defaults [OF keys present] absent
  have "\<exists>p. from_dict d = Inr p \<and> ptype p = STRIKER \<and> control p = AI \<and> max_stamina p = 80
          \<and> stamina p = 80 \<and> flow p = 0 \<and> Player.pos p = (400, 1001 / 2)"
    by auto
  with loaded show ?thesis
    unfolding d_def by blast
qed

section \<open>Properties of the game engine\<close>

text \<open>In the state \<open>GOAL\<close> one iteration of \<open>run\<close> is one call of \<open>_goal_loop\<close>.\<close>

lemma run_iteration_goal:
  "state e = GOAL \<Longrightarrow> run_iteration menu_loop play_loop pause_loop e dt now = Some (goal_loop e now)"
  by (simp add: run_iteration_def)

lemma goal_loop_waits:
  "state e = GOAL \<Longrightarrow> now - goal_time e \<le> 2 \<Longrightarrow> goal_loop e now = e"
  by (simp add: goal_loop_def)

text \<open>
  Claim C8: when an iteration of the run loop takes the engine from \<open>GOAL\<close> to
  \<open>PLAYING\<close>, more than 2 seconds, hence at least 2, have passed since the recorded
  goal time, and the ball after the iteration is a new ball at the centre of the field
  \<open>(SCREEN_W / 2, SCREEN_H / 2)\<close> with zero velocity.
\<close>

theorem goal_to_playing:
  assumes "state e = GOAL"
    and "run_iteration menu_loop play_loop pause_loop e dt now = Some e'"
    and "state e' = PLAYING"
  shows "now - goal_time e > 2 \<and> now - goal_time e \<ge> 2
       \<and> e' = goal_loop e now
       \<and> ball e' = Ball_init 400 300
       \<and> Ball.pos (ball e') = (real_of_int SCREEN_W / 2, real_of_int SCREEN_H / 2)
       \<and> vel (ball e') = (0, 0)"
proof -
  have e': "e' = goal_loop e now"
    using assms(1,2) by (simp add: run_iteration_goal)
  have late: "now - goal_time e > 2"
  proof (rule ccontr)
    assume "\<not> now - goal_time e > 2"
    then have "goal_loop e now = e"
      by (simp add: goal_loop_def)
    with e' assms(1,3) show False
      by simp
  qed
  then have "ball e' = Ball_init 400 300"
    by (simp add: e' goal_loop_def)
  with late e' show ?thesis
    by (simp add: Ball_init_def SCREEN_W_def SCREEN_H_def)
qed

theorem goal_to_playing_witness:
  "state \<lparr>state = GOAL, skill_sys = SkillSystem_init,
          ball = (Ball_init 5 100)\<lparr>Ball.pos := (-5, 100), vel := (- 19 / 2, 0)\<rparr>,
          teams = [(''A'', 0), (''B'', 1)], players = [], start = 90, goal_time = 100\<rparr> = GOAL
   \<and> run_iteration (\<lambda>e. e) (\<lambda>e dt. e) (\<lambda>e. e)
       \<lparr>state = GOAL, skill_sys = SkillSystem_init,
        ball = (Ball_init 5 100)\<lparr>Ball.pos := (-5, 100), vel := (- 19 / 2, 0)\<rparr>,
        teams = [(''A'', 0), (''B'', 1)], players = [], start = 90, goal_time = 100\<rparr>
       (1 / 60) 103
     = Some \<lparr>state = PLAYING, skill_sys = SkillSystem_init, ball = Ball_init 400 300,
             teams = [(''A'', 0), (''B'', 1)], players = [], start = 90, goal_time = 100\<rparr>
   \<and> (103 :: real) - 100 > 2
   \<and> Ball.pos (ball \<lparr>state = PLAYING, skill_sys = SkillSystem_init, ball = Ball_init 400 300,
             teams = [(''A'', 0), (''B'', 1)], players = [], start = 90, goal_time = 100\<rparr>)
       = (400, 300)
   \<and> vel (ball \<lparr>state = PLAYING, skill_sys = SkillSystem_init, ball = Ball_init 400 300,
             teams = [(''A'', 0), (''B'', 1)], players = [], start = 90, goal_time = 100\<rparr>)
       = (0, 0)"
proof -
  define e where
    "e = \<lparr>state = GOAL, skill_sys = SkillSystem_init,
          ball = (Ball_init 5 100)\<lparr>Ball.pos := (-5, 100), vel := (- 19 / 2, 0)\<rparr>,
          teams = [(''A'', 0), (''B'', 1)], players = [], start = 90, goal_time = 100\<rparr>"
  define e' where
    "e' = \<lparr>state = PLAYING, skill_sys = SkillSystem_init, ball = Ball_init 400 300,
           teams = [(''A'', 0), (''B'', 1)], players = [], start = 90, goal_time = 100\<rparr>"
  have s: "state e = GOAL"
    by (simp add: e_def)
  have r: "run_iteration (\<lambda>e. e) (\<lambda>e dt. e) (\<lambda>e. e) e (1 / 60) 103 = Some e'"
    by (simp add: run_iteration_def goal_loop_def e_def e'_def)
  have s': "state e' = PLAYING"
    by (simp add: e'_def)
  have t: "goal_time e = 100"
    by (simp add: e_def)
  have c: "(real_of_int SCREEN_W / 2, real_of_int SCREEN_H / 2) = (400, 300)"
    by (simp add: SCREEN_W_def SCREEN_H_def)
  from goal_to_playing [OF s r s']
  have "103 - goal_time e > 2"
    and "Ball.pos (ball e') = (real_of_int SCREEN_W / 2, real_of_int SCREEN_H / 2)"
    and "vel (ball e') = (0, 0)"
    by blast+
  with s r show ?thesis
    unfolding t c unfolding e_def e'_def by blast
qed


end
